theory Spec2Isabelle
  imports Main "HOL-Library.Sublist" "HOL-Library.Multiset" "HOL-Library.Word"
    "HOL-Library.Char_ord" "HOL-Library.List_Lexorder"
begin

section \<open>Services and routes\<close>

text \<open>
  A \<open>MessageHandler\<close> is a Go function value. Only whether it is \<open>nil\<close> is ever
  inspected, so a handler is an opaque code pointer and \<open>None\<close> is the nil function.
  A \<open>chan\<close> value is likewise a reference, \<open>None\<close> being the nil channel.
  The field \<open>Id\<close> of a service is written \<open>Id'\<close>, \<open>Id\<close> being a constant of HOL.
\<close>

type_synonym MessageHandler = nat
type_synonym chan = nat

record ServiceRoute =
  Route :: string
  Handler :: "MessageHandler option"

type_synonym ServiceRoutes = "ServiceRoute list"

record Service =
  Id' :: string
  Name :: string
  IpAddress :: string
  Port :: int
  Routes :: ServiceRoutes
  LivenessChannel :: "chan option"

text \<open>Failures a Go function returns as an \<open>error\<close> value, and run-time panics.\<close>

datatype error =
  ServiceAlreadyExists | ServiceNotFound
  | RedisNil | WrongType
  | SyntaxError | UnmarshalTypeError | UnsupportedType | UnsupportedValue
  | ErrIDInUse

datatype panic = CloseOfNilChannel | CloseOfClosedChannel | IndexOutOfRange

text \<open>\<open>ServiceRoutes.Len\<close> and \<open>ServiceRoutes.Less\<close>; indexing past the end panics.\<close>

definition Len :: "ServiceRoutes \<Rightarrow> nat" where
  "Len s = length s"

definition route_less :: "ServiceRoute \<Rightarrow> ServiceRoute \<Rightarrow> bool" where
  "route_less a b = (length (Route a) > length (Route b))"

definition Less :: "ServiceRoutes \<Rightarrow> nat \<Rightarrow> nat \<Rightarrow> panic + bool" where
  "Less s i j =
     (if i < length s \<and> j < length s then Inr (route_less (s ! i) (s ! j))
      else Inl IndexOutOfRange)"

text \<open>
  The order \<open>Less\<close> describes, as a stable insertion sort applies a comparator: an
  element moves in front of the first element that \<open>Less\<close> puts it before (one with a
  shorter route). No function of the package sorts with it.
\<close>

fun insert_by_Less :: "ServiceRoute \<Rightarrow> ServiceRoutes \<Rightarrow> ServiceRoutes" where
  "insert_by_Less r [] = [r]"
| "insert_by_Less r (x # xs) =
     (if route_less r x then r # x # xs else x # insert_by_Less r xs)"

fun sort_by_Less :: "ServiceRoutes \<Rightarrow> ServiceRoutes" where
  "sort_by_Less [] = []"
| "sort_by_Less (r # rs) = insert_by_Less r (sort_by_Less rs)"

text \<open>\<open>Service.Key\<close> and \<open>Service.getBaseKey\<close>.\<close>

definition Key :: "Service \<Rightarrow> string" where
  "Key s = ''morpheus:service:'' @ Name s @ '':'' @ Id' s"

definition getBaseKey :: "Service \<Rightarrow> string" where
  "getBaseKey s = ''morpheus:service:'' @ Name s"

text \<open>\<open>strings.HasPrefix(s, prefix)\<close>: \<open>len(s) >= len(prefix) && s[:len(prefix)] == prefix\<close>.\<close>

definition HasPrefix :: "string \<Rightarrow> string \<Rightarrow> bool" where
  "HasPrefix s pre = (length pre \<le> length s \<and> take (length pre) s = pre)"

text \<open>The loop of \<open>Service.Match\<close>: the first route whose prefix test succeeds returns true.\<close>

fun Match_routes :: "ServiceRoutes \<Rightarrow> string \<Rightarrow> bool" where
  "Match_routes [] path = False"
| "Match_routes (route # rest) path =
     (if HasPrefix path (Route route) then True else Match_routes rest path)"

definition Match :: "Service \<Rightarrow> string \<Rightarrow> bool" where
  "Match s path = Match_routes (Routes s) path"

section \<open>The local registry\<close>

text \<open>
  \<open>Services\<close> is \<open>map[string]map[string]*Service\<close>. The pointers stored are never nil
  (\<open>Add\<close> dereferences its argument) and no field of a stored service is ever assigned, so
  the inner maps hold the services themselves.
\<close>

type_synonym Services = "string \<rightharpoonup> (string \<rightharpoonup> Service)"

definition Add :: "Services \<Rightarrow> Service \<Rightarrow> Services" where
  "Add s svc =
     (let inner = (case s (Name svc) of None \<Rightarrow> Map.empty | Some i \<Rightarrow> i)
      in s(Name svc \<mapsto> inner(Id' svc \<mapsto> svc)))"

text \<open>
  \<open>close(c)\<close> panics on a nil channel and on a channel that is closed already; the set is
  the channels closed so far.
\<close>

definition close_chan :: "chan set \<Rightarrow> chan option \<Rightarrow> panic + chan set" where
  "close_chan closed c =
     (case c of
        None \<Rightarrow> Inl CloseOfNilChannel
      | Some ch \<Rightarrow> if ch \<in> closed then Inl CloseOfClosedChannel else Inr (insert ch closed))"

text \<open>
  \<open>Services.Remove\<close>: the close comes first, so a panic there leaves the registry as it
  was. \<open>delete\<close> on a missing inner map does nothing.
\<close>

definition delete_entry :: "Services \<Rightarrow> string \<Rightarrow> string \<Rightarrow> Services" where
  "delete_entry s name ident =
     (case s name of None \<Rightarrow> s | Some inner \<Rightarrow> s(name \<mapsto> inner(ident := None)))"

definition Remove :: "chan set \<Rightarrow> Services \<Rightarrow> Service \<Rightarrow> panic + (chan set \<times> Services)" where
  "Remove closed s svc =
     (case close_chan closed (LivenessChannel svc) of
        Inl p \<Rightarrow> Inl p
      | Inr closed' \<Rightarrow> Inr (closed', delete_entry s (Name svc) (Id' svc)))"

section \<open>JSON documents\<close>

text \<open>
  \<open>encoding/json\<close> is Go's library, outside the repository. A byte slice that holds JSON
  is represented by the document it encodes, so only what the library does between Go
  values and documents is written out: \<open>omitempty\<close>, the struct tags, the coercion of
  strings to valid UTF-8, and the dynamic types that \<open>interface{}\<close> values come back as.
  \<open>JInt n\<close> is a number written with the digits of \<open>n\<close> alone; \<open>JFloat x\<close> is any
  other number literal, named by the \<open>float64\<close> (its 64 bits) that it denotes.
\<close>

type_synonym float64 = "64 word"

datatype json =
  JNull | JBool bool | JInt int | JFloat float64 | JString string
  | JArray "json list" | JObject "(string \<times> json) list"

text \<open>
  The dynamic values of an \<open>interface{}\<close>: nil, \<open>bool\<close>, \<open>int\<close>, \<open>float64\<close>,
  \<open>string\<close>, \<open>[]interface{}\<close>, \<open>map[string]interface{}\<close> (its entries listed by
  ascending key) and, standing for the types that JSON cannot carry, a function value.
  A slice or a map that is nil is a value of its own: an interface that holds it is not
  nil. \<open>GoSlice []\<close> and \<open>GoMap []\<close> are the empty slice and map that are not nil.
\<close>

datatype go_value =
  GoNil | GoBool bool | GoInt int | GoFloat64 float64 | GoString string
  | GoNilSlice | GoSlice "go_value list"
  | GoNilMap | GoMap "(string \<times> go_value) list"
  | GoFunc

text \<open>How the encoder writes a \<open>float64\<close>: not at all (NaN and the infinities), as the
  digits of an integer, or with a fraction or an exponent.\<close>

datatype float_text = NotFinite | Digits int | Fractional

text \<open>
  What the library does at the level of text is taken as given: the text of a document
  (\<open>string(b)\<close> for marshalled bytes \<open>b\<close>), the document a string holds (\<open>None\<close> when it
  is not JSON), and the way a \<open>float64\<close> is written.
\<close>

record golib =
  JsonText :: "json \<Rightarrow> string"
  ParseJson :: "string \<Rightarrow> json option"
  FormatFloat :: "float64 \<Rightarrow> float_text"

subsection \<open>UTF-8\<close>

definition byte :: "char \<Rightarrow> nat" where
  "byte c = of_char c"

definition in_range :: "nat \<Rightarrow> nat \<Rightarrow> char \<Rightarrow> bool" where
  "in_range lo hi c = (lo \<le> byte c \<and> byte c \<le> hi)"

text \<open>
  \<open>utf8.DecodeRuneInString\<close>, as far as the encoder looks at it: the length of the
  well-formed encoding at the head of the string, \<open>0\<close> when there is none (the rune is
  \<open>RuneError\<close> of width 1).
\<close>

fun rune_width :: "string \<Rightarrow> nat" where
  "rune_width [] = 0"
| "rune_width (b # bs) =
     (let x = byte b in
      if x < 0x80 then 1
      else if x < 0xC2 then 0
      else if x < 0xE0 then
        (case bs of c # _ \<Rightarrow> if in_range 0x80 0xBF c then 2 else 0 | _ \<Rightarrow> 0)
      else if x < 0xF0 then
        (case bs of
           c # d # _ \<Rightarrow>
             if in_range (if x = 0xE0 then 0xA0 else 0x80) (if x = 0xED then 0x9F else 0xBF) c
                \<and> in_range 0x80 0xBF d
             then 3 else 0
         | _ \<Rightarrow> 0)
      else if x < 0xF5 then
        (case bs of
           c # d # e # _ \<Rightarrow>
             if in_range (if x = 0xF0 then 0x90 else 0x80) (if x = 0xF4 then 0x8F else 0xBF) c
                \<and> in_range 0x80 0xBF d \<and> in_range 0x80 0xBF e
             then 4 else 0
         | _ \<Rightarrow> 0)
      else 0)"

text \<open>
  A string as it comes out of the encoder and the decoder: every byte that starts no
  well-formed encoding is replaced by U+FFFD (\<open>EF BF BD\<close>).
\<close>

function json_string :: "string \<Rightarrow> string" where
  "json_string [] = []"
| "json_string (b # bs) =
     (let n = rune_width (b # bs) in
      if n = 0 then [CHR 0xEF, CHR 0xBF, CHR 0xBD] @ json_string bs
      else take n (b # bs) @ json_string (drop n (b # bs)))"
  by pat_completeness auto
termination
  by (relation "measure length") auto


subsection \<open>Numbers\<close>




text \<open>A number decoded into an \<open>int64\<close> or (on a 64-bit platform) an \<open>int\<close>.\<close>

definition int64_range :: "int \<Rightarrow> bool" where
  "int64_range n = (- (2 ^ 63) \<le> n \<and> n < 2 ^ 63)"

subsection \<open>Values of type \<open>interface{}\<close>\<close>

fun sequence :: "(error + 'a) list \<Rightarrow> error + 'a list" where
  "sequence [] = Inr []"
| "sequence (x # xs) =
     (case x of
        Inl e \<Rightarrow> Inl e
      | Inr v \<Rightarrow> (case sequence xs of Inl e \<Rightarrow> Inl e | Inr vs \<Rightarrow> Inr (v # vs)))"

definition with_key :: "string \<Rightarrow> error + 'a \<Rightarrow> error + (string \<times> 'a)" where
  "with_key k r = (case r of Inl e \<Rightarrow> Inl e | Inr v \<Rightarrow> Inr (k, v))"

text \<open>
  \<open>json.Marshal\<close> of an \<open>interface{}\<close> value. A map is written in the order of its
  keys; a nil slice and a nil map are written as \<open>null\<close>.
\<close>

fun marshal_value :: "golib \<Rightarrow> go_value \<Rightarrow> error + json" where
  "marshal_value lib GoNil = Inr JNull"
| "marshal_value lib (GoBool b) = Inr (JBool b)"
| "marshal_value lib (GoInt n) = Inr (JInt n)"
| "marshal_value lib (GoFloat64 x) =
     (case FormatFloat lib x of
        NotFinite \<Rightarrow> Inl UnsupportedValue
      | Digits n \<Rightarrow> Inr (JInt n)
      | Fractional \<Rightarrow> Inr (JFloat x))"
| "marshal_value lib (GoString s) = Inr (JString (json_string s))"
| "marshal_value lib GoNilSlice = Inr JNull"
| "marshal_value lib (GoSlice xs) =
     (case sequence (map (marshal_value lib) xs) of
        Inl e \<Rightarrow> Inl e
      | Inr js \<Rightarrow> Inr (JArray js))"
| "marshal_value lib GoNilMap = Inr JNull"
| "marshal_value lib (GoMap kvs) =
     (case sequence (map (\<lambda>kv. with_key (json_string (fst kv)) (marshal_value lib (snd kv))) kvs) of
        Inl e \<Rightarrow> Inl e
      | Inr js \<Rightarrow> Inr (JObject js))"
| "marshal_value lib GoFunc = Inl UnsupportedType"



subsection \<open>Struct fields\<close>

text \<open>
  An object key selects the struct field whose name it equals under simple case folding.
  The names below are ASCII and differ after folding, so a key is folded and looked up:
  ASCII capitals go to lower case, and the two other characters that fold to an ASCII
  letter are the Kelvin sign (\<open>E2 84 AA\<close>, to k) and the long s (\<open>C5 BF\<close>, to s).
\<close>

fun foldName :: "string \<Rightarrow> string" where
  "foldName [] = []"
| "foldName (c # cs) =
     (if byte c = 0xE2 \<and> map byte (take 2 cs) = [0x84, 0xAA] then CHR ''k'' # foldName (drop 2 cs)
      else if byte c = 0xC5 \<and> map byte (take 1 cs) = [0xBF] then CHR ''s'' # foldName (drop 1 cs)
      else if in_range 0x41 0x5A c then char_of (byte c + 32) # foldName cs
      else c # foldName cs)"

text \<open>A JSON value decoded into a field that holds \<open>cur\<close>; \<open>null\<close> leaves the field as it is.\<close>

definition unmarshal_string :: "json \<Rightarrow> string \<Rightarrow> error + string" where
  "unmarshal_string j cur =
     (case j of
        JString s \<Rightarrow> Inr (json_string s)
      | JNull \<Rightarrow> Inr cur
      | _ \<Rightarrow> Inl UnmarshalTypeError)"


definition unmarshal_int :: "json \<Rightarrow> int \<Rightarrow> error + int" where
  "unmarshal_int j cur =
     (case j of
        JInt n \<Rightarrow> if int64_range n then Inr n else Inl UnmarshalTypeError
      | JNull \<Rightarrow> Inr cur
      | _ \<Rightarrow> Inl UnmarshalTypeError)"

text \<open>
  The member that a field tagged \<open>omitempty\<close> contributes under the key \<open>k\<close>: none
  for the empty string, for zero and for the nil interface. An interface that holds
  anything, a nil slice or map included, is not empty.
\<close>

definition omitempty_string :: "string \<Rightarrow> string \<Rightarrow> (string \<times> json) list" where
  "omitempty_string k s = (if s = [] then [] else [(k, JString (json_string s))])"

definition omitempty_int :: "string \<Rightarrow> int \<Rightarrow> (string \<times> json) list" where
  "omitempty_int k n = (if n = 0 then [] else [(k, JInt n)])"

definition omitempty_interface :: "golib \<Rightarrow> string \<Rightarrow> go_value \<Rightarrow> error + (string \<times> json) list" where
  "omitempty_interface lib k v =
     (if v = GoNil then Inr []
      else (case marshal_value lib v of Inl e \<Rightarrow> Inl e | Inr j \<Rightarrow> Inr [(k, j)]))"

section \<open>Messages\<close>

text \<open>
  The \<open>Route\<close> of a message is written \<open>Route'\<close>, apart from the \<open>Route\<close> of a
  \<open>ServiceRoute\<close>. \<open>Timestamp\<close> is an \<open>int64\<close>, read as a signed number.
\<close>

record Message =
  Timestamp :: "64 word"
  MsgId :: string
  ResponseChannel :: string
  Channel :: string
  Route' :: string
  From :: string
  To :: string
  Payload :: go_value


text \<open>
  \<open>json.Marshal\<close> of a \<open>Message\<close>: the fields in the order of the struct, each left out
  when it is the zero of its type. Only the payload can make it fail.
\<close>

definition marshal_Message :: "golib \<Rightarrow> Message \<Rightarrow> error + json" where
  "marshal_Message lib m =
     (case omitempty_interface lib ''payload'' (Payload m) of
        Inl e \<Rightarrow> Inl e
      | Inr p \<Rightarrow>
          Inr (JObject
            (omitempty_int ''timestamp'' (sint (Timestamp m))
             @ omitempty_string ''msg_id'' (MsgId m)
             @ omitempty_string ''response_channel'' (ResponseChannel m)
             @ omitempty_string ''channel'' (Channel m)
             @ omitempty_string ''route'' (Route' m)
             @ omitempty_string ''from'' (From m)
             @ omitempty_string ''to'' (To m)
             @ p)))"





section \<open>Services as JSON\<close>

definition zero_ServiceRoute :: ServiceRoute where
  "zero_ServiceRoute = \<lparr>Route = [], Handler = None\<rparr>"

definition zero_Service :: Service where
  "zero_Service =
     \<lparr>Id' = [], Name = [], IpAddress = [], Port = 0, Routes = [], LivenessChannel = None\<rparr>"

text \<open>
  \<open>json.Marshal\<close> of a \<open>Service\<close>. \<open>Handler\<close> and \<open>LivenessChannel\<close> are tagged
  \<open>"-"\<close> and never written; \<open>Route\<close> has no tag and is written under its own name,
  empty or not. Nothing in a \<open>Service\<close> can make the encoder fail.
\<close>

definition marshal_ServiceRoute :: "ServiceRoute \<Rightarrow> json" where
  "marshal_ServiceRoute r = JObject [(''Route'', JString (json_string (Route r)))]"

definition marshal_Service :: "Service \<Rightarrow> error + json" where
  "marshal_Service svc =
     Inr (JObject
       (omitempty_string ''id'' (Id' svc)
        @ omitempty_string ''name'' (Name svc)
        @ omitempty_string ''ip_address'' (IpAddress svc)
        @ omitempty_int ''port'' (Port svc)
        @ (if Routes svc = [] then []
           else [(''routes'', JArray (map marshal_ServiceRoute (Routes svc)))])))"

fun unmarshal_ServiceRoute_members :: "(string \<times> json) list \<Rightarrow> ServiceRoute \<Rightarrow> error + ServiceRoute" where
  "unmarshal_ServiceRoute_members [] r = Inr r"
| "unmarshal_ServiceRoute_members ((k, j) # kjs) r =
     (if foldName (json_string k) = ''route'' then
        (case unmarshal_string j (Route r) of
           Inl e \<Rightarrow> Inl e
         | Inr v \<Rightarrow> unmarshal_ServiceRoute_members kjs (r\<lparr>Route := v\<rparr>))
      else unmarshal_ServiceRoute_members kjs r)"

definition unmarshal_ServiceRoute :: "json \<Rightarrow> ServiceRoute \<Rightarrow> error + ServiceRoute" where
  "unmarshal_ServiceRoute j cur =
     (case j of
        JObject kjs \<Rightarrow> unmarshal_ServiceRoute_members kjs cur
      | JNull \<Rightarrow> Inr cur
      | _ \<Rightarrow> Inl UnmarshalTypeError)"

text \<open>
  An array decoded into a slice: element \<open>i\<close> of the array is decoded into element \<open>i\<close>
  of the slice where the slice has one, into a zero element otherwise, and the slice
  ends where the array does.
\<close>

fun unmarshal_routes :: "json list \<Rightarrow> ServiceRoutes \<Rightarrow> error + ServiceRoutes" where
  "unmarshal_routes [] old = Inr []"
| "unmarshal_routes (j # js) old =
     (case unmarshal_ServiceRoute j (case old of [] \<Rightarrow> zero_ServiceRoute | r # _ \<Rightarrow> r) of
        Inl e \<Rightarrow> Inl e
      | Inr r \<Rightarrow>
          (case unmarshal_routes js (tl old) of
             Inl e \<Rightarrow> Inl e
           | Inr rs \<Rightarrow> Inr (r # rs)))"

definition unmarshal_ServiceRoutes :: "json \<Rightarrow> ServiceRoutes \<Rightarrow> error + ServiceRoutes" where
  "unmarshal_ServiceRoutes j cur =
     (case j of
        JArray js \<Rightarrow> unmarshal_routes js cur
      | JNull \<Rightarrow> Inr []
      | _ \<Rightarrow> Inl UnmarshalTypeError)"

definition set_Service_field :: "string \<Rightarrow> json \<Rightarrow> Service \<Rightarrow> error + Service" where
  "set_Service_field k j svc =
     (if k = ''id'' then
        (case unmarshal_string j (Id' svc) of Inl e \<Rightarrow> Inl e | Inr v \<Rightarrow> Inr (svc\<lparr>Id' := v\<rparr>))
      else if k = ''name'' then
        (case unmarshal_string j (Name svc) of Inl e \<Rightarrow> Inl e | Inr v \<Rightarrow> Inr (svc\<lparr>Name := v\<rparr>))
      else if k = ''ip_address'' then
        (case unmarshal_string j (IpAddress svc) of
           Inl e \<Rightarrow> Inl e | Inr v \<Rightarrow> Inr (svc\<lparr>IpAddress := v\<rparr>))
      else if k = ''port'' then
        (case unmarshal_int j (Port svc) of Inl e \<Rightarrow> Inl e | Inr v \<Rightarrow> Inr (svc\<lparr>Port := v\<rparr>))
      else if k = ''routes'' then
        (case unmarshal_ServiceRoutes j (Routes svc) of
           Inl e \<Rightarrow> Inl e | Inr v \<Rightarrow> Inr (svc\<lparr>Routes := v\<rparr>))
      else Inr svc)"

fun unmarshal_Service_members :: "(string \<times> json) list \<Rightarrow> Service \<Rightarrow> error + Service" where
  "unmarshal_Service_members [] svc = Inr svc"
| "unmarshal_Service_members ((k, j) # kjs) svc =
     (case set_Service_field (foldName (json_string k)) j svc of
        Inl e \<Rightarrow> Inl e
      | Inr svc' \<Rightarrow> unmarshal_Service_members kjs svc')"

text \<open>\<open>json.Unmarshal([]byte(s), &svc)\<close> for a zero \<open>svc\<close> and a string \<open>s\<close>.\<close>

definition unmarshal_Service :: "golib \<Rightarrow> string \<Rightarrow> error + Service" where
  "unmarshal_Service lib s =
     (case ParseJson lib s of
        None \<Rightarrow> Inl SyntaxError
      | Some JNull \<Rightarrow> Inr zero_Service
      | Some (JObject kjs) \<Rightarrow> unmarshal_Service_members kjs zero_Service
      | Some _ \<Rightarrow> Inl UnmarshalTypeError)"

section \<open>The Redis client\<close>

text \<open>
  The store maps a key to a string or to a set of strings, with the time the key has left
  (a \<open>time.Duration\<close>, in nanoseconds; \<open>None\<close> for a key that does not expire). It is a
  list of bindings, one per key, so that \<open>KEYS\<close> can list it. The client also records
  what it has published and the topics it has subscribed to, in the order of the calls.
  Every command is answered: a connection that fails is not part of the model.
\<close>

datatype redis_value = StringValue string | SetValue "string list"

type_synonym duration = int

definition Second :: duration where
  "Second = 1000000000"

definition DefaultTTL :: duration where
  "DefaultTTL = 5 * Second"

definition DefaultHBInterval :: duration where
  "DefaultHBInterval = 2 * Second"

record redis =
  store :: "(string \<times> redis_value \<times> duration option) list"
  published :: "(string \<times> string) list"
  subscribed :: "string list list"

fun kv_put ::
  "string \<Rightarrow> 'v \<Rightarrow> (string \<times> 'v) list \<Rightarrow> (string \<times> 'v) list" where
  "kv_put k v [] = [(k, v)]"
| "kv_put k v ((k', v') # kvs) =
     (if k = k' then (k, v) # kvs else (k', v') # kv_put k v kvs)"

text \<open>\<open>SET key val EX ttl\<close>.\<close>

definition redis_Set :: "redis \<Rightarrow> string \<Rightarrow> string \<Rightarrow> duration \<Rightarrow> redis" where
  "redis_Set c k v ttl = c\<lparr>store := kv_put k (StringValue v, Some ttl) (store c)\<rparr>"

text \<open>\<open>GET key\<close>.\<close>

definition redis_Get :: "redis \<Rightarrow> string \<Rightarrow> error + string" where
  "redis_Get c k =
     (case map_of (store c) k of
        None \<Rightarrow> Inl RedisNil
      | Some (StringValue v, _) \<Rightarrow> Inr v
      | Some (SetValue _, _) \<Rightarrow> Inl WrongType)"

text \<open>
  \<open>SADD key members...\<close>: refused without members and on a key that holds a string;
  a new set does not expire. The reply is not looked at by any caller.
\<close>

definition redis_SAdd :: "redis \<Rightarrow> string \<Rightarrow> string list \<Rightarrow> redis" where
  "redis_SAdd c k ms =
     (if ms = [] then c
      else
        (case map_of (store c) k of
           None \<Rightarrow> c\<lparr>store := kv_put k (SetValue (remdups ms), None) (store c)\<rparr>
         | Some (SetValue old, ttl) \<Rightarrow>
             c\<lparr>store := kv_put k (SetValue (List.union old ms), ttl) (store c)\<rparr>
         | Some (StringValue _, _) \<Rightarrow> c))"

text \<open>\<open>EXPIRE key ttl\<close>: nothing happens to a key that is not there.\<close>

definition redis_Expire :: "redis \<Rightarrow> string \<Rightarrow> duration \<Rightarrow> redis" where
  "redis_Expire c k ttl =
     (case map_of (store c) k of
        None \<Rightarrow> c
      | Some (v, _) \<Rightarrow> c\<lparr>store := kv_put k (v, Some ttl) (store c)\<rparr>)"

text \<open>
  Matching a key against a pattern in which \<open>*\<close> is the only special character, as
  in the one pattern the package uses.
\<close>

fun glob :: "string \<Rightarrow> string \<Rightarrow> bool" where
  "glob [] s = (s = [])"
| "glob (p # ps) s =
     (if p = CHR ''*'' then
        (glob ps s \<or> (case s of [] \<Rightarrow> False | _ # cs \<Rightarrow> glob (p # ps) cs))
      else (case s of [] \<Rightarrow> False | c # cs \<Rightarrow> c = p \<and> glob ps cs))"

text \<open>\<open>KEYS pattern\<close>.\<close>

definition redis_Keys :: "redis \<Rightarrow> string \<Rightarrow> error + string list" where
  "redis_Keys c pat = Inr (filter (glob pat) (map fst (store c)))"

definition redis_Publish :: "redis \<Rightarrow> string \<Rightarrow> string \<Rightarrow> redis" where
  "redis_Publish c topic payload = c\<lparr>published := published c @ [(topic, payload)]\<rparr>"

definition redis_Subscribe :: "redis \<Rightarrow> string list \<Rightarrow> redis" where
  "redis_Subscribe c topics = c\<lparr>subscribed := subscribed c @ [topics]\<rparr>"

section \<open>The Morpheus state\<close>

text \<open>
  The scheduler of \<open>github.com/madflojo/tasks\<close> keeps one task per id; a task here is
  its interval and the service that its function refreshes. \<open>AddWithID\<close> refuses an id
  that is in use.
\<close>

record Task =
  Interval :: duration
  refreshes :: Service

type_synonym Scheduler = "(string \<times> Task) list"

definition AddWithID :: "Scheduler \<Rightarrow> string \<Rightarrow> Task \<Rightarrow> error + Scheduler" where
  "AddWithID sch ident t =
     (if ident \<in> set (map fst sch) then Inl ErrIDInUse else Inr (sch @ [(ident, t)]))"

text \<open>The fields of \<open>Morpheus\<close> that the package reads or writes after \<open>Init\<close>.\<close>

record Morpheus =
  client :: redis
  Services :: Services
  Scheduler :: Scheduler

text \<open>
  What a call starts and leaves running: the dispatch loop of a service (the topics it
  subscribes to, its handler, the channel whose closing ends it), the one-shot waiter of
  a request (its response topic and the channel it forwards to) and the sender of the
  nil that ends a timeout.
\<close>

datatype goroutine =
  DispatchLoop "string list" MessageHandler "chan option"
  | ResponseWaiter string "chan option"
  | TimeoutSender duration chan

text \<open>
  A process is a \<open>Morpheus\<close> with the goroutines started so far and the number of
  channels made so far (\<open>make(chan *Message)\<close> yields the next one).
\<close>

record process =
  morpheus :: Morpheus
  goroutines :: "goroutine list"
  made :: nat

definition serviceExists :: "Morpheus \<Rightarrow> string \<Rightarrow> string \<Rightarrow> bool" where
  "serviceExists m name ident =
     (case Services m name of None \<Rightarrow> False | Some inner \<Rightarrow> inner ident \<noteq> None)"

definition DeleteService :: "Morpheus \<Rightarrow> Service \<Rightarrow> Morpheus" where
  "DeleteService m svc = m\<lparr>Services := (Services m)(Id' svc := None)\<rparr>"

section \<open>Presence, health and routes\<close>

definition UpdatePresence :: "Morpheus \<Rightarrow> Service \<Rightarrow> Morpheus" where
  "UpdatePresence m svc =
     (let key = Key svc @ '':presence''
      in m\<lparr>client := redis_Set (client m) key (Id' svc) DefaultTTL\<rparr>)"

definition UpdateHealth :: "golib \<Rightarrow> Morpheus \<Rightarrow> Service \<Rightarrow> Morpheus" where
  "UpdateHealth lib m svc =
     (let key = Key svc @ '':health''
      in case marshal_Service svc of
           Inl e \<Rightarrow> m
         | Inr jSvc \<Rightarrow> m\<lparr>client := redis_Set (client m) key (JsonText lib jSvc) DefaultTTL\<rparr>)"

definition UpdateRoutes :: "Morpheus \<Rightarrow> Service \<Rightarrow> Morpheus" where
  "UpdateRoutes m svc =
     (let key = Key svc @ '':routes'';
          routes = map Route (Routes svc)
      in m\<lparr>client := redis_Expire (redis_SAdd (client m) key routes) key DefaultTTL\<rparr>)"

definition UpdateService :: "golib \<Rightarrow> Morpheus \<Rightarrow> Service \<Rightarrow> Morpheus" where
  "UpdateService lib m svc = UpdateRoutes (UpdateHealth lib (UpdatePresence m svc) svc) svc"

text \<open>The function of the heartbeat task that \<open>RegisterService\<close> schedules, run once.\<close>

definition TaskFunc :: "golib \<Rightarrow> Morpheus \<Rightarrow> Task \<Rightarrow> Morpheus" where
  "TaskFunc lib m t = UpdateService lib m (refreshes t)"

section \<open>Registration\<close>

text \<open>
  \<open>RegisterService\<close>. Its first two arguments are what the environment gives the call:
  the identifier \<open>randomId()\<close> returns and the address \<open>m.getIpAddress()\<close> returns (the
  lookup of the outbound address belongs to the host; a call whose lookup fails does not
  return). A failure to schedule the heartbeat is logged and nothing more.
\<close>

definition RegisterService ::
  "golib \<Rightarrow> string \<Rightarrow> string \<Rightarrow> process \<Rightarrow> string \<Rightarrow> int \<Rightarrow> ServiceRoutes \<Rightarrow> MessageHandler option
   \<Rightarrow> (error + Service) \<times> process" where
  "RegisterService lib svcId ip p name port routes handler =
     (let m = morpheus p in
      if serviceExists m name svcId then (Inl ServiceAlreadyExists, p)
      else
        let svc = \<lparr>Id' = svcId, Name = name, IpAddress = ip, Port = port, Routes = routes,
                   LivenessChannel = None\<rparr>;
            m1 = m\<lparr>Services := Add (Services m) svc\<rparr>;
            m2 = UpdateService lib m1 svc;
            channels = [Key svc, getBaseKey svc];
            gs = (case handler of
                    None \<Rightarrow> goroutines p
                  | Some h \<Rightarrow> goroutines p @ [DispatchLoop channels h (LivenessChannel svc)]);
            m3 = (case AddWithID (Scheduler m2) (Id' svc)
                         \<lparr>Interval = DefaultHBInterval, refreshes = svc\<rparr> of
                    Inl e \<Rightarrow> m2
                  | Inr sch \<Rightarrow> m2\<lparr>Scheduler := sch\<rparr>)
        in (Inr svc, p\<lparr>morpheus := m3, goroutines := gs\<rparr>))"

section \<open>Discovery\<close>

text \<open>\<open>strings.Split(s, sep)\<close> for a separator of one byte.\<close>

fun Split :: "string \<Rightarrow> char \<Rightarrow> string list" where
  "Split [] sep = [[]]"
| "Split (c # cs) sep =
     (if c = sep then [] # Split cs sep
      else (case Split cs sep of [] \<Rightarrow> [[c]] | w # ws \<Rightarrow> (c # w) # ws))"

definition getServiceName :: "string \<Rightarrow> panic + string" where
  "getServiceName key =
     (let parts = Split key (CHR '':'')
      in if 2 < length parts then Inr (parts ! 2) else Inl IndexOutOfRange)"

definition FetchService :: "golib \<Rightarrow> Morpheus \<Rightarrow> string \<Rightarrow> string \<Rightarrow> error + Service" where
  "FetchService lib m name ident =
     (let key = ''morpheus:service:'' @ name @ '':'' @ ident @ '':health''
      in case redis_Get (client m) key of
           Inl e \<Rightarrow> Inl e
         | Inr v \<Rightarrow> unmarshal_Service lib v)"

text \<open>The loop of \<open>ListServices\<close> over the keys: a key that cannot be read or whose
  service cannot be fetched is skipped.\<close>

fun ListServices_keys ::
  "golib \<Rightarrow> Morpheus \<Rightarrow> string list \<Rightarrow> Service list \<Rightarrow> panic + Service list" where
  "ListServices_keys lib m [] svcs = Inr svcs"
| "ListServices_keys lib m (key # keys) svcs =
     (case redis_Get (client m) key of
        Inl e \<Rightarrow> ListServices_keys lib m keys svcs
      | Inr v \<Rightarrow>
          (case getServiceName key of
             Inl pn \<Rightarrow> Inl pn
           | Inr svcName \<Rightarrow>
               (case FetchService lib m svcName v of
                  Inl e \<Rightarrow> ListServices_keys lib m keys svcs
                | Inr svc \<Rightarrow> ListServices_keys lib m keys (svcs @ [svc]))))"

text \<open>\<open>sort.SliceStable\<close> by \<open>Id\<close> is the stable insertion sort on that key; strings are
  compared byte by byte.\<close>

definition ListServices :: "golib \<Rightarrow> Morpheus \<Rightarrow> panic + Service list" where
  "ListServices lib m =
     (case redis_Keys (client m) ''morpheus:service:*:presence'' of
        Inl e \<Rightarrow> Inr []
      | Inr keys \<Rightarrow>
          if length keys > 0 then
            (case ListServices_keys lib m keys [] of
               Inl pn \<Rightarrow> Inl pn
             | Inr svcs \<Rightarrow> Inr (sort_key Id' svcs))
          else Inr [])"

text \<open>
  \<open>ResolveService\<close>; \<open>r\<close> is the value of \<open>rand.Int()\<close>, which is never negative.
\<close>

definition ResolveService :: "golib \<Rightarrow> nat \<Rightarrow> Morpheus \<Rightarrow> string \<Rightarrow> panic + (error + Service)" where
  "ResolveService lib r m path =
     (case ListServices lib m of
        Inl pn \<Rightarrow> Inl pn
      | Inr svcs \<Rightarrow>
          (let out = filter (\<lambda>svc. Match svc path) svcs
           in if length out > 0 then Inr (Inr (out ! (r mod length out)))
              else Inr (Inl ServiceNotFound)))"

section \<open>Messaging\<close>

text \<open>
  The message that \<open>Message\<close> builds: the struct literal, then the response channel of
  an originating request (\<open>responseTo == nil\<close>). \<open>msgId\<close> is what \<open>randomId()\<close>
  returns and \<open>now\<close> is \<open>time.Now().Unix()\<close>.
\<close>

definition new_Message ::
  "string \<Rightarrow> 64 word \<Rightarrow> string \<Rightarrow> string \<Rightarrow> string \<Rightarrow> string \<Rightarrow> go_value \<Rightarrow> string option
   \<Rightarrow> Message" where
  "new_Message msgId now channel from to route payload responseTo =
     (let message = \<lparr>Timestamp = now, MsgId = msgId, ResponseChannel = [], Channel = channel,
                      Route' = route, From = from, To = to, Payload = payload\<rparr>
      in if responseTo = None
         then message\<lparr>ResponseChannel := channel @ '':response:'' @ MsgId message\<rparr>
         else message)"

text \<open>
  \<open>Message\<close>: when the message cannot be marshalled the call logs and returns, before
  any subscription or publication. Otherwise a request subscribes to its response topic
  and starts its waiter, and the text of the message is published to \<open>channel\<close>.
\<close>

definition Message ::
  "golib \<Rightarrow> string \<Rightarrow> 64 word \<Rightarrow> process \<Rightarrow> string \<Rightarrow> string \<Rightarrow> string \<Rightarrow> string \<Rightarrow> go_value
   \<Rightarrow> string option \<Rightarrow> chan option \<Rightarrow> process" where
  "Message lib msgId now p channel from to route payload responseTo retch =
     (let message = new_Message msgId now channel from to route payload responseTo
      in case marshal_Message lib message of
           Inl e \<Rightarrow> p
         | Inr jMsg \<Rightarrow>
             (let p1 = (if responseTo = None
                        then p\<lparr>morpheus := (morpheus p)
                                 \<lparr>client := redis_Subscribe (client (morpheus p))
                                               [ResponseChannel message]\<rparr>,
                               goroutines := goroutines p
                                 @ [ResponseWaiter (ResponseChannel message) retch]\<rparr>
                        else p)
              in p1\<lparr>morpheus := (morpheus p1)
                      \<lparr>client := redis_Publish (client (morpheus p1)) channel
                                    (JsonText lib jMsg)\<rparr>\<rparr>))"

definition RPC ::
  "golib \<Rightarrow> string \<Rightarrow> 64 word \<Rightarrow> process \<Rightarrow> string \<Rightarrow> Service \<Rightarrow> string \<Rightarrow> go_value
   \<Rightarrow> chan \<times> process" where
  "RPC lib msgId now p from service route payload =
     (let retch = made p;
          p1 = p\<lparr>made := Suc (made p)\<rparr>;
          p2 = Message lib msgId now p1 ''rpc'' from (Key service) route payload None (Some retch)
      in (retch, p2))"

definition RPCWithTimeout ::
  "golib \<Rightarrow> string \<Rightarrow> 64 word \<Rightarrow> process \<Rightarrow> string \<Rightarrow> Service \<Rightarrow> string \<Rightarrow> go_value \<Rightarrow> duration
   \<Rightarrow> chan \<times> process" where
  "RPCWithTimeout lib msgId now p from service route payload timeout =
     (let retch = made p;
          p1 = p\<lparr>made := Suc (made p)\<rparr>;
          p2 = Message lib msgId now p1 (Key service) from (Key service) route payload None
                 (Some retch);
          p3 = p2\<lparr>goroutines := goroutines p2 @ [TimeoutSender timeout retch]\<rparr>
      in (retch, p3))"

definition Respond :: "golib \<Rightarrow> string \<Rightarrow> 64 word \<Rightarrow> process \<Rightarrow> Message \<Rightarrow> go_value \<Rightarrow> process" where
  "Respond lib msgId now p msg payload =
     Message lib msgId now p (ResponseChannel msg) (To msg) (From msg) (Route' msg) payload
       (Some (ResponseChannel msg)) None"

section \<open>Payloads that JSON gives back\<close>


section \<open>Example values\<close>

text \<open>
  \<open>Init\<close> makes an empty registry and an empty scheduler around the client that
  \<open>Connect\<close> opens; the store behind the client is whatever it is then.
\<close>

definition Init :: "redis \<Rightarrow> Morpheus" where
  "Init c = \<lparr>client = c, Services = Map.empty, Scheduler = []\<rparr>"

definition empty_redis :: redis where
  "empty_redis = \<lparr>store = [], published = [], subscribed = []\<rparr>"

definition start :: process where
  "start = \<lparr>morpheus = Init empty_redis, goroutines = [], made = 0\<rparr>"

text \<open>A library for examples whose outcome does not hang on any text.\<close>

definition plain_lib :: golib where
  "plain_lib = \<lparr>JsonText = (\<lambda>j. ''{}''), ParseJson = (\<lambda>s. None), FormatFloat = (\<lambda>x. Fractional)\<rparr>"

definition echo_routes :: ServiceRoutes where
  "echo_routes = [\<lparr>Route = ''/e'', Handler = None\<rparr>, \<lparr>Route = ''/echo'', Handler = Some 0\<rparr>]"

definition echo :: Service where
  "echo = \<lparr>Id' = ''a1'', Name = ''echo'', IpAddress = ''10.0.0.7'', Port = 8080,
            Routes = echo_routes, LivenessChannel = None\<rparr>"

definition registered :: Morpheus where
  "registered = (Init empty_redis)\<lparr>Services := Add Map.empty echo\<rparr>"


text \<open>
  A library that knows the texts of the documents of a table, and three services kept
  alive in a store: two instances of \<open>echo\<close> and a gateway that takes every path.
  Handlers and channels are not written to the store, so a service that is listed has
  none.
\<close>

definition table_lib :: "(json \<times> string) list \<Rightarrow> golib" where
  "table_lib tbl =
     \<lparr>JsonText = (\<lambda>j. case map_of tbl j of None \<Rightarrow> [] | Some s \<Rightarrow> s),
      ParseJson = (\<lambda>s. map_of (map (\<lambda>js. (snd js, fst js)) tbl) s),
      FormatFloat = (\<lambda>x. Fractional)\<rparr>"

definition doc_of :: "Service \<Rightarrow> json" where
  "doc_of svc = (case marshal_Service svc of Inl e \<Rightarrow> JNull | Inr j \<Rightarrow> j)"

definition listed :: "Service \<Rightarrow> Service" where
  "listed svc = svc\<lparr>Routes := map (\<lambda>r. r\<lparr>Handler := None\<rparr>) (Routes svc), LivenessChannel := None\<rparr>"

definition echo2 :: Service where
  "echo2 = echo\<lparr>Id' := ''b2'', IpAddress := ''10.0.0.8''\<rparr>"

definition gateway :: Service where
  "gateway = \<lparr>Id' = ''c3'', Name = ''gateway'', IpAddress = ''10.0.0.9'', Port = 80,
               Routes = [\<lparr>Route = ''/'', Handler = Some 1\<rparr>], LivenessChannel = None\<rparr>"

definition live_lib :: golib where
  "live_lib = table_lib [(doc_of echo, ''<echo a1>''), (doc_of echo2, ''<echo b2>''),
                          (doc_of gateway, ''<gateway c3>'')]"

definition live :: Morpheus where
  "live = Init
     \<lparr>store =
        [(''morpheus:service:gateway:c3:presence'', StringValue ''c3'', Some DefaultTTL),
         (''morpheus:service:gateway:c3:health'', StringValue ''<gateway c3>'', Some DefaultTTL),
         (''morpheus:service:gateway:c3:routes'', SetValue [''/''], Some DefaultTTL),
         (''morpheus:service:echo:b2:presence'', StringValue ''b2'', Some DefaultTTL),
         (''morpheus:service:echo:b2:health'', StringValue ''<echo b2>'', Some DefaultTTL),
         (''morpheus:service:echo:b2:routes'', SetValue [''/e'', ''/echo''], Some DefaultTTL),
         (''morpheus:service:echo:a1:presence'', StringValue ''a1'', Some DefaultTTL),
         (''morpheus:service:echo:a1:health'', StringValue ''<echo a1>'', Some DefaultTTL),
         (''morpheus:service:echo:a1:routes'', SetValue [''/e'', ''/echo''], Some DefaultTTL)],
      published = [], subscribed = []\<rparr>"

text \<open>A request that a client sent to the first instance of \<open>echo\<close>.\<close>

definition request :: Message where
  "request = new_Message ''m1'' 1700000000 ''morpheus:service:echo:a1'' ''client''
               ''morpheus:service:echo:a1'' ''/echo'' (GoString ''hello'') None"

section \<open>Route matching\<close>

lemma HasPrefix_iff_prefix: "HasPrefix s pre = prefix pre s"
  by (metis HasPrefix_def append_eq_conv_conj append_take_drop_id length_append le_add1 prefix_def)

lemma Match_routes_iff: "Match_routes rs path = (\<exists>r \<in> set rs. prefix (Route r) path)"
  by (induction rs) (auto simp: HasPrefix_iff_prefix)

lemma Match_iff: "Match svc path = (\<exists>r \<in> set (Routes svc). prefix (Route r) path)"
  by (simp add: Match_def Match_routes_iff)

lemma mset_insert_by_Less: "mset (insert_by_Less r rs) = add_mset r (mset rs)"
  by (induction rs) auto

lemma mset_sort_by_Less: "mset (sort_by_Less rs) = mset rs"
  by (induction rs) (auto simp: mset_insert_by_Less)

lemma set_insert_by_Less: "set (insert_by_Less r rs) = insert r (set rs)"
  by (induction rs) auto

lemma sorted_insert_by_Less:
  "sorted_wrt (\<lambda>a b. \<not> route_less b a) rs
   \<Longrightarrow> sorted_wrt (\<lambda>a b. \<not> route_less b a) (insert_by_Less r rs)"
  by (induction rs) (auto simp: set_insert_by_Less route_less_def)

lemma sorted_sort_by_Less: "sorted_wrt (\<lambda>a b. \<not> route_less b a) (sort_by_Less rs)"
  by (induction rs) (auto simp: sorted_insert_by_Less)

text \<open>
  Claim C8. \<open>Service.Match(path)\<close> holds exactly when some entry of \<open>Routes\<close> has its
  \<open>Route\<close> as a prefix of the path. Hence the result is the same for every
  rearrangement of \<open>Routes\<close>, and in particular for the list put in the order of
  \<open>ServiceRoutes.Less\<close> (no route before a longer one).
\<close>

theorem Match_order_independent:
  "(Match svc path \<longleftrightarrow> (\<exists>r \<in> set (Routes svc). prefix (Route r) path))
   \<and> (\<forall>rs. mset rs = mset (Routes svc) \<longrightarrow> Match (svc\<lparr>Routes := rs\<rparr>) path = Match svc path)
   \<and> sorted_wrt (\<lambda>a b. \<not> route_less b a) (sort_by_Less (Routes svc))
   \<and> Match (svc\<lparr>Routes := sort_by_Less (Routes svc)\<rparr>) path = Match svc path"
proof -
  have perm: "Match (svc\<lparr>Routes := rs\<rparr>) path = Match svc path"
    if "mset rs = mset (Routes svc)" for rs
  proof -
    from that have "set rs = set (Routes svc)" by (rule mset_eq_setD)
    then show ?thesis by (simp add: Match_iff)
  qed
  have "Match svc path \<longleftrightarrow> (\<exists>r \<in> set (Routes svc). prefix (Route r) path)"
    by (rule Match_iff)
  moreover have "Match (svc\<lparr>Routes := sort_by_Less (Routes svc)\<rparr>) path = Match svc path"
    by (rule perm) (rule mset_sort_by_Less)
  ultimately show ?thesis
    using perm sorted_sort_by_Less by blast
qed

theorem Match_order_independent_witness:
  "Match echo ''/echo/x''
   \<and> mset (rev echo_routes) = mset (Routes echo)
   \<and> Match (echo\<lparr>Routes := rev echo_routes\<rparr>) ''/echo/x''
   \<and> sort_by_Less (Routes echo) = rev echo_routes
   \<and> \<not> Match echo ''/other''"
  using Match_order_independent [of echo "''/echo/x''"] Match_order_independent [of echo "''/other''"]
  by (simp add: echo_def echo_routes_def route_less_def)

section \<open>The registry\<close>

text \<open>
  Claim C10. \<open>DeleteService(svc)\<close> deletes the entry of the outer map under the key
  \<open>svc.Id\<close>, not under \<open>svc.Name\<close>, and touches nothing else. So when no name of
  the registry equals \<open>svc.Id\<close> the state is unchanged, and a service registered under
  \<open>(svc.Name, svc.Id)\<close> is registered there still.
\<close>

theorem DeleteService_keyed_by_Id:
  "Services (DeleteService m svc) = (Services m)(Id' svc := None)
   \<and> client (DeleteService m svc) = client m
   \<and> Scheduler (DeleteService m svc) = Scheduler m
   \<and> (Id' svc \<notin> dom (Services m) \<longrightarrow>
        DeleteService m svc = m
        \<and> serviceExists (DeleteService m svc) (Name svc) (Id' svc)
            = serviceExists m (Name svc) (Id' svc))"
proof -
  have "DeleteService m svc = m" if "Id' svc \<notin> dom (Services m)"
  proof -
    from that have "(Services m)(Id' svc := None) = Services m" by (simp add: domIff)
    then show ?thesis by (simp add: DeleteService_def)
  qed
  then show ?thesis by (auto simp: DeleteService_def)
qed

theorem DeleteService_keyed_by_Id_witness:
  "Id' echo \<notin> dom (Services registered)
   \<and> serviceExists registered (Name echo) (Id' echo)
   \<and> DeleteService registered echo = registered
   \<and> serviceExists (DeleteService registered echo) (Name echo) (Id' echo)"
  using DeleteService_keyed_by_Id [of registered echo]
  by (simp add: registered_def Init_def Add_def echo_def serviceExists_def dom_def)

lemma RegisterService_Inr:
  "fst (RegisterService lib svcId ip p name port routes handler) = Inr svc
   \<Longrightarrow> svc = \<lparr>Id' = svcId, Name = name, IpAddress = ip, Port = port, Routes = routes,
                   LivenessChannel = None\<rparr> \<and> \<not> serviceExists (morpheus p) name svcId"
  by (auto simp: RegisterService_def Let_def split: if_splits)

text \<open>
  Claim C9. A service that \<open>RegisterService\<close> returns has a nil \<open>LivenessChannel\<close>. So
  in \<open>Services.Remove\<close>, whatever the registry and whatever channels are closed, the
  \<open>close\<close> that comes before the \<open>delete\<close> is a close of a nil channel: the call
  panics there, and the entry is not deleted.
\<close>

theorem registered_service_nil_LivenessChannel:
  assumes "fst (RegisterService lib svcId ip p name port routes handler) = Inr svc"
  shows "LivenessChannel svc = None
     \<and> close_chan closed (LivenessChannel svc) = Inl CloseOfNilChannel
     \<and> Remove closed s svc = Inl CloseOfNilChannel"
proof -
  from assms have "LivenessChannel svc = None"
    by (auto dest: RegisterService_Inr)
  then show ?thesis by (simp add: Remove_def close_chan_def)
qed

theorem registered_service_nil_LivenessChannel_witness:
  "fst (RegisterService plain_lib ''a1'' ''10.0.0.7'' start ''echo'' 8080 echo_routes (Some 0))
     = Inr echo
   \<and> LivenessChannel echo = None
   \<and> Remove {} (Add Map.empty echo) echo = Inl CloseOfNilChannel"
  using registered_service_nil_LivenessChannel
    [of plain_lib "''a1''" "''10.0.0.7''" start "''echo''" 8080 echo_routes "Some 0" echo
        "{}" "Add Map.empty echo"]
  by (simp add: RegisterService_def start_def Init_def serviceExists_def echo_def Let_def)

section \<open>Registration\<close>

lemma Services_UpdateService [simp]: "Services (UpdateService lib m svc) = Services m"
  by (simp add: UpdateService_def UpdateRoutes_def UpdateHealth_def UpdatePresence_def Let_def
      split: sum.splits)



section \<open>The presence key\<close>

lemma map_of_kv_put: "map_of (kv_put k v kvs) = (map_of kvs)(k \<mapsto> v)"
  by (induction kvs) (auto simp: fun_eq_iff)

lemma map_of_redis_Set:
  "map_of (store (redis_Set c k v ttl)) = (map_of (store c))(k \<mapsto> (StringValue v, Some ttl))"
  by (simp add: redis_Set_def map_of_kv_put)

lemma map_of_redis_SAdd_other:
  "k' \<noteq> k \<Longrightarrow> map_of (store (redis_SAdd c k ms)) k' = map_of (store c) k'"
  by (auto simp: redis_SAdd_def map_of_kv_put split: option.splits redis_value.splits)

lemma map_of_redis_Expire_other:
  "k' \<noteq> k \<Longrightarrow> map_of (store (redis_Expire c k ttl)) k' = map_of (store c) k'"
  by (auto simp: redis_Expire_def map_of_kv_put split: option.splits)

lemma UpdateService_presence:
  "map_of (store (client (UpdateService lib m svc)))
       (''morpheus:service:'' @ Name svc @ '':'' @ Id' svc @ '':presence'')
     = Some (StringValue (Id' svc), Some (5 * 1000000000))"
proof -
  define key where "key = ''morpheus:service:'' @ Name svc @ '':'' @ Id' svc @ '':presence''"
  have p: "map_of (store (client (UpdatePresence m svc))) key
       = Some (StringValue (Id' svc), Some (5 * 1000000000))"
    by (simp add: UpdatePresence_def Let_def Key_def key_def map_of_redis_Set DefaultTTL_def
        Second_def)
  have h: "map_of (store (client (UpdateHealth lib m' svc))) key = map_of (store (client m')) key"
    for m'
    by (simp add: UpdateHealth_def Let_def marshal_Service_def map_of_redis_Set key_def Key_def)
  have r: "map_of (store (client (UpdateRoutes m' svc))) key = map_of (store (client m')) key"
    for m'
    by (simp add: UpdateRoutes_def Let_def map_of_redis_SAdd_other map_of_redis_Expire_other
        key_def Key_def)
  show ?thesis
    unfolding key_def [symmetric] by (simp add: UpdateService_def r h p)
qed

lemma RegisterService_client:
  "fst (RegisterService lib svcId ip p name port routes handler) = Inr svc
   \<Longrightarrow> client (morpheus (snd (RegisterService lib svcId ip p name port routes handler)))
       = client (UpdateService lib ((morpheus p)\<lparr>Services := Add (Services (morpheus p)) svc\<rparr>) svc)"
  by (auto simp: RegisterService_def Let_def split: if_splits sum.splits)

text \<open>
  Claim C6, as amended. Every presence refresh binds exactly one key of the store, the
  key \<open>morpheus:service:<name>:<id>:presence\<close>, to the id of the service with a time
  to live of five seconds, and changes nothing else. The key is bound so after
  \<open>UpdateService\<close>, hence after a registration that succeeds and after every run of
  the heartbeat task. The key starts with \<open>morpheus:\<close>: no key
  \<open>service:<name>:<id>:presence\<close> is written.
\<close>

theorem UpdatePresence_writes_presence_key:
  fixes m svc lib
  defines "key \<equiv> ''morpheus:service:'' @ Name svc @ '':'' @ Id' svc @ '':presence''"
  shows "map_of (store (client (UpdatePresence m svc)))
       = (map_of (store (client m)))(key \<mapsto> (StringValue (Id' svc), Some (5 * 1000000000)))
     \<and> published (client (UpdatePresence m svc)) = published (client m)
     \<and> subscribed (client (UpdatePresence m svc)) = subscribed (client m)
     \<and> Services (UpdatePresence m svc) = Services m
     \<and> Scheduler (UpdatePresence m svc) = Scheduler m
     \<and> map_of (store (client (UpdateService lib m svc))) key
         = Some (StringValue (Id' svc), Some (5 * 1000000000))
     \<and> (refreshes t = svc \<longrightarrow>
          map_of (store (client (TaskFunc lib m t))) key
            = Some (StringValue (Id' svc), Some (5 * 1000000000)))
     \<and> (fst (RegisterService lib svcId ip p name port routes handler) = Inr svc \<longrightarrow>
          map_of (store (client (morpheus
              (snd (RegisterService lib svcId ip p name port routes handler))))) key
            = Some (StringValue (Id' svc), Some (5 * 1000000000)))"
proof -
  have k: "Key svc @ '':presence'' = key"
    by (simp add: Key_def key_def)
  have p: "map_of (store (client (UpdatePresence m svc)))
       = (map_of (store (client m)))(key \<mapsto> (StringValue (Id' svc), Some (5 * 1000000000)))"
    unfolding UpdatePresence_def Let_def k
    by (simp add: map_of_redis_Set DefaultTTL_def Second_def)
  have u: "map_of (store (client (UpdateService lib m' svc))) key
         = Some (StringValue (Id' svc), Some (5 * 1000000000))" for m'
    unfolding key_def by (rule UpdateService_presence)
  have t: "map_of (store (client (TaskFunc lib m t))) key
            = Some (StringValue (Id' svc), Some (5 * 1000000000))" if "refreshes t = svc"
    using that u by (simp add: TaskFunc_def)
  have r: "map_of (store (client (morpheus
              (snd (RegisterService lib svcId ip p name port routes handler))))) key
            = Some (StringValue (Id' svc), Some (5 * 1000000000))"
    if "fst (RegisterService lib svcId ip p name port routes handler) = Inr svc"
    using RegisterService_client [OF that] u by simp
  from p u t r show ?thesis
    by (simp add: UpdatePresence_def redis_Set_def)
qed

theorem UpdatePresence_writes_presence_key_witness:
  "fst (RegisterService plain_lib ''a1'' ''10.0.0.7'' start ''echo'' 8080 echo_routes (Some 0))
     = Inr echo
   \<and> map_of (store (client (morpheus
         (snd (RegisterService plain_lib ''a1'' ''10.0.0.7'' start ''echo'' 8080 echo_routes
                (Some 0))))))
       ''morpheus:service:echo:a1:presence''
     = Some (StringValue ''a1'', Some 5000000000)
   \<and> map_of (store (client
         (TaskFunc plain_lib (Init empty_redis) \<lparr>Interval = DefaultHBInterval, refreshes = echo\<rparr>)))
       ''morpheus:service:echo:a1:presence''
     = Some (StringValue ''a1'', Some 5000000000)"
proof -
  have a: "fst (RegisterService plain_lib ''a1'' ''10.0.0.7'' start ''echo'' 8080 echo_routes
                  (Some 0)) = Inr echo"
    by (simp add: RegisterService_def start_def Init_def serviceExists_def echo_def Let_def)
  have b: "refreshes \<lparr>Interval = DefaultHBInterval, refreshes = echo\<rparr> = echo"
    by simp
  have n: "Name echo = ''echo''" "Id' echo = ''a1''"
    by (simp_all add: echo_def)
  from a b
    UpdatePresence_writes_presence_key [of "Init empty_redis" echo plain_lib
      "\<lparr>Interval = DefaultHBInterval, refreshes = echo\<rparr>" "''a1''" "''10.0.0.7''" start
      "''echo''" 8080 echo_routes "Some 0"]
  show ?thesis
    by (simp add: n)
qed

text \<open>
  The claim as it was stated fails for the service \<open>echo\<close> with id \<open>a1\<close>: the key
  \<open>service:echo:a1:presence\<close> stays unbound.
\<close>

theorem presence_key_not_bare_service_prefix:
  "map_of (store (client (UpdatePresence (Init empty_redis) echo))) ''service:echo:a1:presence'' = None
   \<and> store (client (UpdatePresence (Init empty_redis) echo))
       = [(''morpheus:service:echo:a1:presence'', StringValue ''a1'', Some 5000000000)]"
  by (simp add: UpdatePresence_def Init_def empty_redis_def echo_def Key_def redis_Set_def
      DefaultTTL_def Second_def)

section \<open>Discovery and resolution\<close>

lemma glob_literal:
  "p \<noteq> CHR ''*'' \<Longrightarrow> glob (p # ps) s = (\<exists>t. s = p # t \<and> glob ps t)"
  by (cases s) auto

lemma glob_presence_prefix:
  assumes "glob ''morpheus:service:*:presence'' key"
  shows "\<exists>t. key = ''morpheus:service:'' @ t"
  using assms by (simp add: glob_literal del: glob.simps) blast

lemma Split_not_Nil: "Split s sep \<noteq> []"
  by (induction s) (auto split: list.splits)

lemma length_Split: "length (Split s sep) = Suc (length (filter (\<lambda>c. c = sep) s))"
proof (induction s)
  case Nil
  then show ?case by simp
next
  case (Cons c cs)
  then show ?case
    using Split_not_Nil [of cs sep] by (cases "Split cs sep") auto
qed

lemma getServiceName_presence_key:
  assumes "glob ''morpheus:service:*:presence'' key"
  shows "\<exists>name. getServiceName key = Inr name"
proof -
  from assms obtain t where "key = ''morpheus:service:'' @ t"
    using glob_presence_prefix by blast
  then have "2 < length (Split key (CHR '':''))"
    by (simp add: length_Split)
  then show ?thesis by (simp add: getServiceName_def Let_def)
qed

lemma ListServices_keys_returns:
  "\<forall>key \<in> set keys. \<exists>name. getServiceName key = Inr name
   \<Longrightarrow> \<exists>out. ListServices_keys lib m keys svcs = Inr out"
proof (induction keys arbitrary: svcs)
  case Nil
  then show ?case by simp
next
  case (Cons key keys)
  then obtain name where "getServiceName key = Inr name"
    by auto
  with Cons show ?case
    by (auto split: sum.splits)
qed

lemma ListServices_returns: "\<exists>svcs. ListServices lib m = Inr svcs"
proof -
  define keys where
    "keys = filter (glob ''morpheus:service:*:presence'') (map fst (store (client m)))"
  have "\<forall>key \<in> set keys. \<exists>name. getServiceName key = Inr name"
  proof
    fix key assume "key \<in> set keys"
    then have "glob ''morpheus:service:*:presence'' key"
      unfolding keys_def by (simp only: set_filter mem_Collect_eq)
    then show "\<exists>name. getServiceName key = Inr name"
      by (rule getServiceName_presence_key)
  qed
  then have "\<exists>out. ListServices_keys lib m keys [] = Inr out"
    by (rule ListServices_keys_returns)
  moreover have "redis_Keys (client m) ''morpheus:service:*:presence'' = Inr keys"
    by (simp only: redis_Keys_def keys_def)
  ultimately show ?thesis
    by (auto simp only: ListServices_def sum.case split: if_splits)
qed

text \<open>
  Claim C1. \<open>ResolveService(path)\<close> always returns, and it returns an error (service
  not found) exactly when no service that \<open>ListServices\<close> lists matches the path.
  When it succeeds, the service it returns has a route that is a prefix of the path and is
  one of the listed services that match, whatever their names and ids; and every listed
  service that matches is returned for some value of the random number.
\<close>

theorem ResolveService_error_iff_no_match:
  "\<exists>svcs. ListServices lib m = Inr svcs
     \<and> ((\<exists>e. ResolveService lib r m path = Inr (Inl e)) \<longleftrightarrow> \<not> (\<exists>svc \<in> set svcs. Match svc path))
     \<and> (\<not> (\<exists>svc \<in> set svcs. Match svc path) \<longrightarrow>
           ResolveService lib r m path = Inr (Inl ServiceNotFound))
     \<and> ((\<exists>svc \<in> set svcs. Match svc path) \<longrightarrow>
           (\<exists>svc. ResolveService lib r m path = Inr (Inr svc)
              \<and> (\<exists>rt \<in> set (Routes svc). prefix (Route rt) path)
              \<and> svc \<in> set (filter (\<lambda>s. Match s path) svcs)))
     \<and> (\<forall>svc \<in> set (filter (\<lambda>s. Match s path) svcs).
           \<exists>r'. ResolveService lib r' m path = Inr (Inr svc))"
proof -
  obtain svcs where l: "ListServices lib m = Inr svcs"
    using ListServices_returns by blast
  define out where "out = filter (\<lambda>svc. Match svc path) svcs"
  have res: "ResolveService lib r' m path =
      (if length out > 0 then Inr (Inr (out ! (r' mod length out))) else Inr (Inl ServiceNotFound))" for r'
    by (simp add: ResolveService_def l out_def Let_def)
  have empty: "out = [] \<longleftrightarrow> \<not> (\<exists>svc \<in> set svcs. Match svc path)"
    by (auto simp: out_def filter_empty_conv)
  have none: "ResolveService lib r m path = Inr (Inl ServiceNotFound)" if "out = []"
    using that by (simp add: res)
  have some: "\<exists>svc. ResolveService lib r m path = Inr (Inr svc)
              \<and> (\<exists>rt \<in> set (Routes svc). prefix (Route rt) path) \<and> svc \<in> set out" if "out \<noteq> []"
  proof -
    from that have "r mod length out < length out" by simp
    then have "out ! (r mod length out) \<in> set out" by (rule nth_mem)
    moreover from this have "Match (out ! (r mod length out)) path" by (simp add: out_def)
    ultimately show ?thesis using that by (auto simp: res Match_iff)
  qed
  have every: "\<exists>r'. ResolveService lib r' m path = Inr (Inr svc)" if "svc \<in> set out" for svc
  proof -
    from that obtain i where i: "i < length out" "out ! i = svc"
      by (auto simp: in_set_conv_nth)
    then have "out \<noteq> []" by auto
    with i have "ResolveService lib i m path = Inr (Inr svc)"
      by (simp add: res)
    then show ?thesis ..
  qed
  have iff: "(\<exists>e. ResolveService lib r m path = Inr (Inl e)) \<longleftrightarrow> out = []"
    using none some by (cases "out = []") auto
  from l empty none some every iff show ?thesis
    unfolding out_def by blast
qed

theorem ResolveService_error_iff_no_match_witness:
  "ListServices live_lib live = Inr [listed echo, listed echo2, listed gateway]
   \<and> ResolveService live_lib 4 live ''/echo/x'' = Inr (Inr (listed echo2))
   \<and> ResolveService live_lib 4 live ''/other'' = Inr (Inr (listed gateway))
   \<and> ResolveService live_lib 4 live ''other'' = Inr (Inl ServiceNotFound)"
proof -
  have l: "ListServices live_lib live = Inr [listed echo, listed echo2, listed gateway]"
    by code_simp
  have a: "ResolveService live_lib 4 live ''/echo/x'' = Inr (Inr (listed echo2))"
    by code_simp
  have b: "ResolveService live_lib 4 live ''/other'' = Inr (Inr (listed gateway))"
    by code_simp
  have n: "\<not> (\<exists>svc \<in> set [listed echo, listed echo2, listed gateway]. Match svc ''other'')"
    by code_simp
  obtain svcs where s: "ListServices live_lib live = Inr svcs"
    and nf: "\<not> (\<exists>svc \<in> set svcs. Match svc ''other'') \<longrightarrow>
               ResolveService live_lib 4 live ''other'' = Inr (Inl ServiceNotFound)"
    using ResolveService_error_iff_no_match [of live_lib live 4 "''other''"] by blast
  from s l have "svcs = [listed echo, listed echo2, listed gateway]" by simp
  with n nf have "ResolveService live_lib 4 live ''other'' = Inr (Inl ServiceNotFound)"
    by blast
  with l a b show ?thesis by simp
qed

section \<open>Messaging\<close>

lemma Message_marshalled:
  assumes "marshal_Message lib (new_Message msgId now channel from to route payload responseTo) = Inr jMsg"
  shows "published (client (morpheus (Message lib msgId now p channel from to route payload responseTo retch)))
           = published (client (morpheus p)) @ [(channel, JsonText lib jMsg)]"
    and "subscribed (client (morpheus (Message lib msgId now p channel from to route payload responseTo retch)))
           = subscribed (client (morpheus p))
             @ (if responseTo = None
                then [[ResponseChannel (new_Message msgId now channel from to route payload responseTo)]]
                else [])"
    and "goroutines (Message lib msgId now p channel from to route payload responseTo retch)
           = goroutines p
             @ (if responseTo = None
                then [ResponseWaiter
                        (ResponseChannel (new_Message msgId now channel from to route payload responseTo))
                        retch]
                else [])"
    and "made (Message lib msgId now p channel from to route payload responseTo retch) = made p"
  using assms
  by (simp_all add: Message_def Let_def redis_Publish_def redis_Subscribe_def)

lemma Message_not_marshalled:
  assumes "marshal_Message lib (new_Message msgId now channel from to route payload responseTo) = Inl e"
  shows "Message lib msgId now p channel from to route payload responseTo retch = p"
  using assms by (simp add: Message_def Let_def)

lemma omitempty_string_keys: "fst ` set (omitempty_string k s) \<subseteq> {k}"
  by (simp add: omitempty_string_def)

lemma omitempty_int_keys: "fst ` set (omitempty_int k n) \<subseteq> {k}"
  by (simp add: omitempty_int_def)

lemma omitempty_interface_keys:
  "omitempty_interface lib k v = Inr p \<Longrightarrow> fst ` set p \<subseteq> {k}"
  by (auto simp: omitempty_interface_def split: if_splits sum.splits)

lemma marshal_Message_members:
  assumes "marshal_Message lib m = Inr j"
  shows "\<exists>kjs. j = JObject kjs
           \<and> (ResponseChannel m = [] \<longrightarrow> ''response_channel'' \<notin> fst ` set kjs)"
proof -
  from assms obtain p where p: "omitempty_interface lib ''payload'' (Payload m) = Inr p"
    and j: "j = JObject
            (omitempty_int ''timestamp'' (sint (Timestamp m))
             @ omitempty_string ''msg_id'' (MsgId m)
             @ omitempty_string ''response_channel'' (ResponseChannel m)
             @ omitempty_string ''channel'' (Channel m)
             @ omitempty_string ''route'' (Route' m)
             @ omitempty_string ''from'' (From m)
             @ omitempty_string ''to'' (To m)
             @ p)"
    by (auto simp: marshal_Message_def split: sum.splits)
  have "''response_channel'' \<notin> fst ` set p"
    using omitempty_interface_keys [OF p] by auto
  moreover have "''response_channel'' \<notin> fst ` set (omitempty_int ''timestamp'' n)" for n
    using omitempty_int_keys [of "''timestamp''" n] by auto
  moreover have "''response_channel'' \<notin> fst ` set (omitempty_string k s)"
    if "k \<noteq> ''response_channel''" for k s
    using that omitempty_string_keys [of k s] by auto
  moreover have "omitempty_string ''response_channel'' [] = []"
    by (simp add: omitempty_string_def)
  ultimately show ?thesis
    using j by (simp add: image_Un)
qed

text \<open>
  Claim C3, as amended. The message of an originating request carries the fresh id and
  the response channel \<open><channel>:response:<msgId>\<close>. Whenever the message can be
  marshalled, its text is published to \<open>channel\<close>, for a request and for a reply
  alike, and a request has first subscribed to its response channel and started its
  waiter. When the message cannot be marshalled, the call changes nothing: nothing is
  published.
\<close>

theorem Message_request_publishes:
  fixes lib msgId now p channel "from" to route payload retch
  defines "message \<equiv> new_Message msgId now channel from to route payload None"
  shows "MsgId message = msgId
     \<and> ResponseChannel message = channel @ '':response:'' @ msgId
     \<and> (\<forall>responseTo jMsg.
           marshal_Message lib (new_Message msgId now channel from to route payload responseTo) = Inr jMsg
           \<longrightarrow> published (client (morpheus
                   (Message lib msgId now p channel from to route payload responseTo retch)))
                 = published (client (morpheus p)) @ [(channel, JsonText lib jMsg)])
     \<and> (\<forall>jMsg. marshal_Message lib message = Inr jMsg
           \<longrightarrow> subscribed (client (morpheus
                   (Message lib msgId now p channel from to route payload None retch)))
                 = subscribed (client (morpheus p)) @ [[channel @ '':response:'' @ msgId]]
               \<and> goroutines (Message lib msgId now p channel from to route payload None retch)
                 = goroutines p @ [ResponseWaiter (channel @ '':response:'' @ msgId) retch])
     \<and> (\<forall>responseTo e.
           marshal_Message lib (new_Message msgId now channel from to route payload responseTo) = Inl e
           \<longrightarrow> Message lib msgId now p channel from to route payload responseTo retch = p)"
proof -
  have f: "MsgId message = msgId" "ResponseChannel message = channel @ '':response:'' @ msgId"
    by (simp_all add: message_def new_Message_def)
  show ?thesis
    using f Message_marshalled [of lib msgId now channel "from" to route payload _ _ p retch]
      Message_not_marshalled [of lib msgId now channel "from" to route payload _ _ p retch]
    unfolding message_def by simp
qed

theorem Message_request_publishes_witness:
  "marshal_Message plain_lib
       (new_Message ''m1'' 1700000000 ''rpc'' ''client'' ''morpheus:service:echo:a1'' ''/echo''
          (GoString ''hello'') None)
     = Inr (JObject [(''timestamp'', JInt 1700000000), (''msg_id'', JString ''m1''),
                     (''response_channel'', JString ''rpc:response:m1''),
                     (''channel'', JString ''rpc''), (''route'', JString ''/echo''),
                     (''from'', JString ''client''), (''to'', JString ''morpheus:service:echo:a1''),
                     (''payload'', JString ''hello'')])
   \<and> published (client (morpheus
         (Message plain_lib ''m1'' 1700000000 start ''rpc'' ''client'' ''morpheus:service:echo:a1''
            ''/echo'' (GoString ''hello'') None (Some 0))))
       = [(''rpc'', ''{}'')]
   \<and> subscribed (client (morpheus
         (Message plain_lib ''m1'' 1700000000 start ''rpc'' ''client'' ''morpheus:service:echo:a1''
            ''/echo'' (GoString ''hello'') None (Some 0))))
       = [[''rpc:response:m1'']]
   \<and> Message plain_lib ''m1'' 1700000000 start ''rpc'' ''client'' ''morpheus:service:echo:a1''
            ''/echo'' GoFunc (Some ''x'') None = start"
proof -
  have m: "marshal_Message plain_lib
       (new_Message ''m1'' 1700000000 ''rpc'' ''client'' ''morpheus:service:echo:a1'' ''/echo''
          (GoString ''hello'') None)
     = Inr (JObject [(''timestamp'', JInt 1700000000), (''msg_id'', JString ''m1''),
                     (''response_channel'', JString ''rpc:response:m1''),
                     (''channel'', JString ''rpc''), (''route'', JString ''/echo''),
                     (''from'', JString ''client''), (''to'', JString ''morpheus:service:echo:a1''),
                     (''payload'', JString ''hello'')])"
    by code_simp
  have e: "marshal_Message plain_lib
       (new_Message ''m1'' 1700000000 ''rpc'' ''client'' ''morpheus:service:echo:a1'' ''/echo''
          GoFunc (Some ''x'')) = Inl UnsupportedType"
    by code_simp
  have s: "published (client (morpheus start)) = []" "subscribed (client (morpheus start)) = []"
    "JsonText plain_lib j = ''{}''" for j
    by (simp_all add: start_def Init_def empty_redis_def plain_lib_def)
  show ?thesis
    using m e s
      Message_request_publishes [of "''m1''" 1700000000 "''rpc''" "''client''"
        "''morpheus:service:echo:a1''" "''/echo''" "GoString ''hello''" plain_lib start "Some 0"]
      Message_request_publishes [of "''m1''" 1700000000 "''rpc''" "''client''"
        "''morpheus:service:echo:a1''" "''/echo''" "GoFunc" plain_lib start "None"]
    by simp
qed

text \<open>
  The claim as it was stated fails for a payload that JSON cannot carry, a function
  value: the request has its response channel, and nothing is published.
\<close>

theorem Message_unsupported_payload_not_published:
  "ResponseChannel (new_Message ''m1'' 1700000000 ''rpc'' ''client'' ''morpheus:service:echo:a1''
       ''/echo'' GoFunc None) = ''rpc:response:m1''
   \<and> published (client (morpheus
         (Message plain_lib ''m1'' 1700000000 start ''rpc'' ''client'' ''morpheus:service:echo:a1''
            ''/echo'' GoFunc None (Some 0)))) = []"
  by code_simp

text \<open>
  Claim C4, as amended. The reply that \<open>Respond(msg, payload)\<close> builds has \<open>From\<close>
  and \<open>To\<close> exchanged and an empty \<open>ResponseChannel\<close>. Whenever the reply can be
  marshalled, its text is published to the topic \<open>msg.ResponseChannel\<close>, without a
  \<open>response_channel\<close> member, and nothing is subscribed to and no waiter is started.
  When it cannot be marshalled, nothing is published.
\<close>

theorem Respond_publishes_reply:
  fixes lib msgId now p msg payload
  defines "reply \<equiv> new_Message msgId now (ResponseChannel msg) (To msg) (From msg) (Route' msg)
                      payload (Some (ResponseChannel msg))"
  shows "From reply = To msg \<and> To reply = From msg \<and> ResponseChannel reply = []
     \<and> Channel reply = ResponseChannel msg \<and> Route' reply = Route' msg \<and> Payload reply = payload
     \<and> MsgId reply = msgId
     \<and> (\<forall>jMsg. marshal_Message lib reply = Inr jMsg \<longrightarrow>
           published (client (morpheus (Respond lib msgId now p msg payload)))
             = published (client (morpheus p)) @ [(ResponseChannel msg, JsonText lib jMsg)]
           \<and> (\<exists>kjs. jMsg = JObject kjs \<and> ''response_channel'' \<notin> fst ` set kjs)
           \<and> subscribed (client (morpheus (Respond lib msgId now p msg payload)))
               = subscribed (client (morpheus p))
           \<and> goroutines (Respond lib msgId now p msg payload) = goroutines p)
     \<and> (\<forall>e. marshal_Message lib reply = Inl e \<longrightarrow> Respond lib msgId now p msg payload = p)"
proof -
  have f: "From reply = To msg" "To reply = From msg" "ResponseChannel reply = []"
    "Channel reply = ResponseChannel msg" "Route' reply = Route' msg" "Payload reply = payload"
    "MsgId reply = msgId"
    by (simp_all add: reply_def new_Message_def)
  have ok: "published (client (morpheus (Respond lib msgId now p msg payload)))
             = published (client (morpheus p)) @ [(ResponseChannel msg, JsonText lib jMsg)]
           \<and> (\<exists>kjs. jMsg = JObject kjs \<and> ''response_channel'' \<notin> fst ` set kjs)
           \<and> subscribed (client (morpheus (Respond lib msgId now p msg payload)))
               = subscribed (client (morpheus p))
           \<and> goroutines (Respond lib msgId now p msg payload) = goroutines p"
    if m: "marshal_Message lib reply = Inr jMsg" for jMsg
  proof -
    from m f(3) marshal_Message_members [of lib reply jMsg]
    have "\<exists>kjs. jMsg = JObject kjs \<and> ''response_channel'' \<notin> fst ` set kjs" by blast
    then show ?thesis
      using m Message_marshalled [of lib msgId now "ResponseChannel msg" "To msg" "From msg"
          "Route' msg" payload "Some (ResponseChannel msg)" jMsg p None]
      unfolding reply_def Respond_def by simp
  qed
  have bad: "Respond lib msgId now p msg payload = p" if "marshal_Message lib reply = Inl e" for e
    using that unfolding reply_def Respond_def by (rule Message_not_marshalled)
  from f ok bad show ?thesis by blast
qed

theorem Respond_publishes_reply_witness:
  "marshal_Message plain_lib
       (new_Message ''m2'' 1700000001 (ResponseChannel request) (To request) (From request)
          (Route' request) (GoString ''hello'') (Some (ResponseChannel request)))
     = Inr (JObject [(''timestamp'', JInt 1700000001), (''msg_id'', JString ''m2''),
                     (''channel'', JString ''morpheus:service:echo:a1:response:m1''),
                     (''route'', JString ''/echo''),
                     (''from'', JString ''morpheus:service:echo:a1''), (''to'', JString ''client''),
                     (''payload'', JString ''hello'')])
   \<and> published (client (morpheus (Respond plain_lib ''m2'' 1700000001 start request (GoString ''hello''))))
       = [(''morpheus:service:echo:a1:response:m1'', ''{}'')]
   \<and> Respond plain_lib ''m2'' 1700000001 start request GoFunc = start"
proof -
  have m: "marshal_Message plain_lib
       (new_Message ''m2'' 1700000001 (ResponseChannel request) (To request) (From request)
          (Route' request) (GoString ''hello'') (Some (ResponseChannel request)))
     = Inr (JObject [(''timestamp'', JInt 1700000001), (''msg_id'', JString ''m2''),
                     (''channel'', JString ''morpheus:service:echo:a1:response:m1''),
                     (''route'', JString ''/echo''),
                     (''from'', JString ''morpheus:service:echo:a1''), (''to'', JString ''client''),
                     (''payload'', JString ''hello'')])"
    by code_simp
  have e: "marshal_Message plain_lib
       (new_Message ''m2'' 1700000001 (ResponseChannel request) (To request) (From request)
          (Route' request) GoFunc (Some (ResponseChannel request))) = Inl UnsupportedType"
    by code_simp
  have s: "published (client (morpheus start)) = []"
    "JsonText plain_lib j = ''{}''" for j
    by (simp_all add: start_def Init_def empty_redis_def plain_lib_def)
  have r: "ResponseChannel request = ''morpheus:service:echo:a1:response:m1''"
    by code_simp
  show ?thesis
    using m e s r
      Respond_publishes_reply [of "''m2''" 1700000001 request "GoString ''hello''" plain_lib start]
      Respond_publishes_reply [of "''m2''" 1700000001 request "GoFunc" plain_lib start]
    by simp
qed

text \<open>
  The claim as it was stated fails for a payload that JSON cannot carry: no reply is
  published.
\<close>

theorem Respond_unsupported_payload_not_published:
  "published (client (morpheus (Respond plain_lib ''m2'' 1700000001 start request GoFunc))) = []"
  by code_simp

text \<open>
  Claim C5. \<open>RPC\<close> and \<open>RPCWithTimeout\<close> do not publish on the same channel. For the
  request of a client to the service \<open>echo\<close> with id \<open>a1\<close>, the two messages agree in
  \<open>From\<close>, \<open>To\<close>, \<open>Route\<close> and \<open>Payload\<close>, and \<open>RPCWithTimeout\<close> publishes on
  the key of the service and starts the sender of nil beside the waiter; but \<open>RPC\<close>
  publishes on the topic \<open>rpc\<close>. The dispatch loop that \<open>RegisterService\<close> starts for
  the service subscribes to the key of the service and to its base key, and the topic
  \<open>rpc\<close> is neither of the two, for any service.
\<close>

theorem RPC_publishes_on_rpc_topic:
  "''rpc'' \<notin> set [Key svc, getBaseKey svc]
   \<and> map fst (published (client (morpheus (snd (RPC plain_lib ''m1'' 1700000000 start ''client''
         echo ''/echo'' (GoString ''hello''))))))
       = [''rpc'']
   \<and> map fst (published (client (morpheus (snd (RPCWithTimeout plain_lib ''m1'' 1700000000 start
         ''client'' echo ''/echo'' (GoString ''hello'') (3 * Second))))))
       = [''morpheus:service:echo:a1'']
   \<and> goroutines (snd (RPC plain_lib ''m1'' 1700000000 start ''client'' echo ''/echo''
         (GoString ''hello'')))
       = [ResponseWaiter ''rpc:response:m1'' (Some 0)]
   \<and> goroutines (snd (RPCWithTimeout plain_lib ''m1'' 1700000000 start ''client'' echo ''/echo''
         (GoString ''hello'') (3 * Second)))
       = [ResponseWaiter ''morpheus:service:echo:a1:response:m1'' (Some 0),
          TimeoutSender 3000000000 0]
   \<and> new_Message ''m1'' 1700000000 ''rpc'' ''client'' (Key echo) ''/echo'' (GoString ''hello'') None
       = (new_Message ''m1'' 1700000000 (Key echo) ''client'' (Key echo) ''/echo''
            (GoString ''hello'') None)
           \<lparr>Channel := ''rpc'', ResponseChannel := ''rpc:response:m1''\<rparr>
   \<and> goroutines (snd (RegisterService plain_lib ''a1'' ''10.0.0.7'' start ''echo'' 8080
         echo_routes (Some 0)))
       = [DispatchLoop [''morpheus:service:echo:a1'', ''morpheus:service:echo''] 0 None]"
proof -
  have t: "''rpc'' \<notin> set [Key svc, getBaseKey svc]"
    by (simp add: Key_def getBaseKey_def)
  have a: "map fst (published (client (morpheus (snd (RPC plain_lib ''m1'' 1700000000 start
         ''client'' echo ''/echo'' (GoString ''hello''))))))
       = [''rpc'']"
    by code_simp
  have b: "map fst (published (client (morpheus (snd (RPCWithTimeout plain_lib ''m1'' 1700000000
         start ''client'' echo ''/echo'' (GoString ''hello'') (3 * Second))))))
       = [''morpheus:service:echo:a1'']"
    by code_simp
  have c: "goroutines (snd (RPC plain_lib ''m1'' 1700000000 start ''client'' echo ''/echo''
         (GoString ''hello'')))
       = [ResponseWaiter ''rpc:response:m1'' (Some 0)]"
    by code_simp
  have d: "goroutines (snd (RPCWithTimeout plain_lib ''m1'' 1700000000 start ''client'' echo
         ''/echo'' (GoString ''hello'') (3 * Second)))
       = [ResponseWaiter ''morpheus:service:echo:a1:response:m1'' (Some 0),
          TimeoutSender 3000000000 0]"
    by code_simp
  have e: "new_Message ''m1'' 1700000000 ''rpc'' ''client'' (Key echo) ''/echo''
         (GoString ''hello'') None
       = (new_Message ''m1'' 1700000000 (Key echo) ''client'' (Key echo) ''/echo''
            (GoString ''hello'') None)
           \<lparr>Channel := ''rpc'', ResponseChannel := ''rpc:response:m1''\<rparr>"
    by (simp add: new_Message_def)
  have f: "goroutines (snd (RegisterService plain_lib ''a1'' ''10.0.0.7'' start ''echo'' 8080
         echo_routes (Some 0)))
       = [DispatchLoop [''morpheus:service:echo:a1'', ''morpheus:service:echo''] 0 None]"
    by (simp add: RegisterService_def start_def Init_def serviceExists_def Let_def Key_def
        getBaseKey_def)
  from t a b c d e f show ?thesis
    by simp
qed

section \<open>The round trip of a message\<close>



































end
